theory Spec2Isabelle
  imports Complex_Main "HOL-Library.Sublist"
begin

section \<open>Reaction bot: data model\<close>

text \<open>
  The Python exceptions that the modelled code can raise. \<open>StorageError\<close> stands for
  any exception of the document store (a driver error, or the \<open>RuntimeError\<close> of
  \<open>Database.get_collection\<close> when the store is not connected). All of them are
  subclasses of \<open>Exception\<close>.
\<close>

datatype py_error =
  IndexError | ZeroDivisionError | OverflowError | StorageError

text \<open>
  Python strings are modelled as byte strings holding their UTF-8 encoding.
  The three symbols below are the literals of \<open>reactions.py\<close>, lines 304 and 321.
\<close>

definition heart :: string where
  "heart = [CHR 0xE2, CHR 0x9D, CHR 0xA4, CHR 0xEF, CHR 0xB8, CHR 0x8F]"

definition fire :: string where
  "fire = [CHR 0xF0, CHR 0x9F, CHR 0x94, CHR 0xA5]"

definition thumbs_up :: string where
  "thumbs_up = [CHR 0xF0, CHR 0x9F, CHR 0x91, CHR 0x8D]"

text \<open>
  A document of the \<open>chats\<close> collection. Every key the code reads with
  \<open>dict.get(key, default)\<close> is an option: \<open>None\<close> is a document without the key.
\<close>

record chat_config =
  chat_id :: int
  chat_title :: "string option"
  enabled :: "bool option"
  reaction_mode :: "string option"
  emojis :: "string list option"
  last_emoji_idx :: "int option"
  delay_min :: "int option"
  delay_max :: "int option"
  react_to_text :: "bool option"
  react_to_media :: "bool option"
  react_to_forwards :: "bool option"

text \<open>A document of the \<open>reactions\<close> collection (an outcome record); times are
  microseconds since the epoch.\<close>

record reaction_doc =
  r_chat_id :: int
  r_message_id :: int
  r_emoji :: string
  r_timestamp :: int
  r_status :: string
  r_error :: "string option"
  r_retry_count :: nat

text \<open>The value of the \<open>bot_settings\<close> document of the \<open>settings\<close> collection
  (\<open>models.BotSettings\<close>, \<open>admin.get_bot_settings\<close>).\<close>

record bot_settings =
  auto_react :: "bool option"
  max_retries_setting :: int
  flood_wait_multiplier :: rat

text \<open>A document of the \<open>analytics\<close> collection, written by \<open>_update_analytics\<close>;
  its \<open>timestamp\<close>, \<open>date\<close> and \<open>hour\<close> keys hold a clock read of their own and are
  left out.\<close>

record analytics_doc =
  a_metric_type :: string
  a_value :: rat
  a_emoji :: string

datatype coll = Reactions | Chats | Settings | Analytics

text \<open>
  The document store. \<open>fault c = Some e\<close> says that every operation on collection \<open>c\<close>
  raises \<open>e\<close>; the collections are lists in insertion order.
\<close>

record database =
  reactions :: "reaction_doc list"
  chats :: "chat_config list"
  settings :: "bot_settings option"
  analytics :: "analytics_doc list"
  fault :: "coll \<Rightarrow> py_error option"

subsection \<open>Operations of the store on the chats collection\<close>

text \<open>\<open>find_one({"chat_id": c})\<close>: the first matching document.\<close>

definition find_one_chat :: "int \<Rightarrow> database \<Rightarrow> py_error + chat_config option" where
  "find_one_chat c store =
     (case fault store Chats of
        Some e \<Rightarrow> Inl e
      | None \<Rightarrow> Inr (find (\<lambda>d. chat_id d = c) (chats store)))"

text \<open>\<open>update_one({"chat_id": c}, {"$set": {"last_emoji_idx": v}})\<close>: the first
  matching document gets the new value; without a match nothing changes (no upsert).\<close>

fun set_first_idx :: "int \<Rightarrow> int \<Rightarrow> chat_config list \<Rightarrow> chat_config list" where
  "set_first_idx c v [] = []"
| "set_first_idx c v (d # ds) =
     (if chat_id d = c then d\<lparr>last_emoji_idx := Some v\<rparr> # ds
      else d # set_first_idx c v ds)"

definition update_one_idx :: "int \<Rightarrow> int \<Rightarrow> database \<Rightarrow> py_error + database" where
  "update_one_idx c v store =
     (case fault store Chats of
        Some e \<Rightarrow> Inl e
      | None \<Rightarrow> Inr (store\<lparr>chats := set_first_idx c v (chats store)\<rparr>))"

section \<open>Emoji selector\<close>

text \<open>\<open>random.choice(seq)\<close> with the random draw \<open>r\<close> as a parameter: it raises
  \<open>IndexError\<close> on an empty sequence and returns \<open>seq[i]\<close> for some \<open>i < len(seq)\<close>
  otherwise.\<close>

definition random_choice :: "nat \<Rightarrow> 'a list \<Rightarrow> py_error + 'a" where
  "random_choice r xs = (if xs = [] then Inl IndexError else Inr (xs ! (r mod length xs)))"

text \<open>The three reads of \<open>_select_emoji\<close> with their defaults:
  \<open>chat_config.get("reaction_mode", "random")\<close>, \<open>chat_config.get("emojis", [...])\<close> and
  \<open>chat_config.get("last_emoji_idx", 0)\<close>.\<close>

definition mode_of :: "chat_config \<Rightarrow> string" where
  "mode_of chat_conf = (case reaction_mode chat_conf of None \<Rightarrow> ''random'' | Some m \<Rightarrow> m)"

definition emojis_of :: "chat_config \<Rightarrow> string list" where
  "emojis_of chat_conf =
     (case emojis chat_conf of None \<Rightarrow> [heart, fire, thumbs_up] | Some es \<Rightarrow> es)"

definition cursor_of :: "chat_config \<Rightarrow> int" where
  "cursor_of chat_conf = (case last_emoji_idx chat_conf of None \<Rightarrow> 0 | Some i \<Rightarrow> i)"

text \<open>
  \<open>TelegramBot._select_emoji\<close> (\<open>reactions.py\<close>, lines 301 to 321). The result is the
  returned symbol or the exception raised, together with the store after the call.
  In sequential mode \<open>last_emoji_idx % len(emojis)\<close> raises \<open>ZeroDivisionError\<close> on an
  empty list; Python's \<open>%\<close> with a positive modulus is \<open>mod\<close> on \<open>int\<close>.
\<close>

definition select_emoji :: "nat \<Rightarrow> chat_config \<Rightarrow> database \<Rightarrow> (py_error + string) \<times> database" where
  "select_emoji r chat_conf store =
     (let mode = mode_of chat_conf; ems = emojis_of chat_conf
      in if mode = ''random'' then (random_choice r ems, store)
         else if mode = ''fixed'' then (Inr (if ems \<noteq> [] then ems ! 0 else heart), store)
         else if mode = ''sequential'' then
           (let idx = cursor_of chat_conf
            in if ems = [] then (Inl ZeroDivisionError, store)
               else (let emoji = ems ! nat (idx mod int (length ems))
                     in case update_one_idx (chat_id chat_conf)
                               ((idx + 1) mod int (length ems)) store of
                          Inl e \<Rightarrow> (Inl e, store)
                        | Inr store' \<Rightarrow> (Inr emoji, store')))
         else (Inr heart, store))"

text \<open>
  Consecutive selections for one chat, as \<open>_handle_reaction\<close> makes them for consecutive
  messages: the chat's stored configuration is read (line 271), then \<open>_select_emoji\<close> is
  called on it (line 293). The run stops at the first exception or missing chat.
\<close>

fun consecutive_selections :: "nat \<Rightarrow> int \<Rightarrow> database \<Rightarrow> string list \<times> database" where
  "consecutive_selections 0 c store = ([], store)"
| "consecutive_selections (Suc m) c store =
     (case find_one_chat c store of
        Inr (Some chat_conf) \<Rightarrow>
          (case select_emoji 0 chat_conf store of
             (Inr e, store') \<Rightarrow>
               (case consecutive_selections m c store' of (es, store'') \<Rightarrow> (e # es, store''))
           | (Inl x, store') \<Rightarrow> ([], store'))
      | _ \<Rightarrow> ([], store))"

section \<open>Strings and numbers of the dispatcher\<close>

text \<open>\<open>str.upper()\<close> on the ASCII letters (other bytes are left as they are), the
  membership test \<open>sub in s\<close> and \<open>str(n)\<close> for an integer.\<close>

definition upper_char :: "char \<Rightarrow> char" where
  "upper_char c =
     (let n = (of_char c :: nat) in if 97 \<le> n \<and> n \<le> 122 then char_of (n - 32) else c)"

definition upper :: "string \<Rightarrow> string" where
  "upper s = map upper_char s"

fun py_in :: "string \<Rightarrow> string \<Rightarrow> bool" where
  "py_in sub [] = (sub = [])"
| "py_in sub (c # cs) = (prefix sub (c # cs) \<or> py_in sub cs)"

function str_nat :: "nat \<Rightarrow> string" where
  "str_nat n =
     (if n < 10 then [''0123456789'' ! n]
      else str_nat (n div 10) @ [''0123456789'' ! (n mod 10)])"
  by pat_completeness auto
termination
  by (relation "measure (\<lambda>n. n)") auto

definition str_int :: "int \<Rightarrow> string" where
  "str_int i = (if i < 0 then CHR ''-'' # str_nat (nat (- i)) else str_nat (nat i))"

text \<open>
  \<open>utils.exponential_backoff\<close> (lines 111 to 115), with the draw of
  \<open>secrets.randbelow(1000)\<close> as the parameter \<open>r\<close>. Floats are modelled by the rationals
  they stand for. \<open>base_delay * (2 ** attempt)\<close> converts the integer \<open>2 ** attempt\<close> to a
  float first, which raises \<open>OverflowError\<close> from \<open>2 ** 1024\<close> on; the powers of two below
  that are floats exactly.
\<close>

definition exponential_backoff :: "nat \<Rightarrow> rat \<Rightarrow> rat \<Rightarrow> nat \<Rightarrow> py_error + rat" where
  "exponential_backoff attempt base_delay max_delay r =
     (if 1024 \<le> attempt then Inl OverflowError
      else (let delay = min (base_delay * 2 ^ attempt) max_delay;
                jitter = of_nat r / 1000
            in Inr (delay + jitter)))"

section \<open>Reaction dispatcher\<close>

text \<open>What one call of the platform's \<open>send_reaction\<close> does: it returns, or raises
  \<open>FloodWait\<close> with its \<open>value\<close>, an \<open>RPCError\<close> with its \<open>str(e)\<close>, or another exception.\<close>

datatype send_result = Delivered | FloodWait int | RPCError string | OtherFailure

record message =
  m_chat_id :: int
  m_id :: int

text \<open>The in-memory counters \<open>TelegramBot.stats\<close>.\<close>

record bot_stats =
  total_reactions :: nat
  flood_waits :: nat
  errors :: nat
  active_chats :: "int set"

text \<open>The calls of the platform (with the attempt number) and of \<open>asyncio.sleep\<close> (with
  its argument in seconds), in the order the dispatcher makes them.\<close>

datatype effect = Call nat | Sleep rat

record world =
  stats :: bot_stats
  db :: database
  effects :: "effect list"

text \<open>The environment of one message's dispatch: the platform's answer to the call of
  attempt \<open>n\<close>, the clock read for the record of attempt \<open>n\<close>, and the random draw of the
  backoff of attempt \<open>n\<close>.\<close>

record env =
  platform :: "nat \<Rightarrow> send_result"
  utcnow :: "nat \<Rightarrow> int"
  randbelow :: "nat \<Rightarrow> nat"

text \<open>The local constant \<open>max_retries = 3\<close> of \<open>_send_reaction\<close> (line 331).\<close>

definition max_retries :: nat where
  "max_retries = 3"

definition outcome :: "message \<Rightarrow> string \<Rightarrow> int \<Rightarrow> string \<Rightarrow> string option \<Rightarrow> nat \<Rightarrow> reaction_doc" where
  "outcome msg emoji now st err attempt =
     \<lparr>r_chat_id = m_chat_id msg, r_message_id = m_id msg, r_emoji = emoji,
      r_timestamp = now, r_status = st, r_error = err, r_retry_count = attempt\<rparr>"

text \<open>\<open>db.get_collection("reactions").insert_one(doc)\<close>.\<close>

definition insert_reaction :: "reaction_doc \<Rightarrow> database \<Rightarrow> py_error + database" where
  "insert_reaction d store =
     (case fault store Reactions of
        Some e \<Rightarrow> Inl e
      | None \<Rightarrow> Inr (store\<lparr>reactions := reactions store @ [d]\<rparr>))"

text \<open>\<open>_update_analytics\<close> (lines 439 to 453): the insert is inside its own
  \<open>try\<close>, a failure is logged and swallowed.\<close>

definition update_analytics :: "string \<Rightarrow> rat \<Rightarrow> string \<Rightarrow> database \<Rightarrow> database" where
  "update_analytics metric v emoji store =
     (case fault store Analytics of
        Some e \<Rightarrow> store
      | None \<Rightarrow> store\<lparr>analytics := analytics store @
                  [\<lparr>a_metric_type = metric, a_value = v, a_emoji = emoji\<rparr>]\<rparr>)"

definition note_call :: "nat \<Rightarrow> world \<Rightarrow> world" where
  "note_call attempt w = w\<lparr>effects := effects w @ [Call attempt]\<rparr>"

definition sleep :: "rat \<Rightarrow> world \<Rightarrow> world" where
  "sleep d w = w\<lparr>effects := effects w @ [Sleep d]\<rparr>"

definition count_success :: "int \<Rightarrow> world \<Rightarrow> world" where
  "count_success c w =
     w\<lparr>stats := (stats w)\<lparr>total_reactions := total_reactions (stats w) + 1,
                            active_chats := insert c (active_chats (stats w))\<rparr>\<rparr>"

definition count_flood_wait :: "world \<Rightarrow> world" where
  "count_flood_wait w = w\<lparr>stats := (stats w)\<lparr>flood_waits := flood_waits (stats w) + 1\<rparr>\<rparr>"

definition count_error :: "world \<Rightarrow> world" where
  "count_error w = w\<lparr>stats := (stats w)\<lparr>errors := errors (stats w) + 1\<rparr>\<rparr>"

text \<open>
  \<open>TelegramBot._send_reaction\<close> (lines 323 to 396). The result is the exception that
  leaves the call, if any, and the world after it. An exception raised inside an
  \<open>except\<close> block (a failed insert, a failed backoff computation) is not caught by the
  sibling \<open>except Exception\<close> and leaves the call; one raised in the \<open>try\<close> body is caught.
  \<open>wait_time * 1.5\<close> is exact on the rationals.
\<close>

function send_reaction ::
  "env \<Rightarrow> message \<Rightarrow> string \<Rightarrow> chat_config \<Rightarrow> nat \<Rightarrow> world \<Rightarrow> py_error option \<times> world" where
  "send_reaction ev msg emoji chat_conf attempt w =
     (case platform ev attempt of
        Delivered \<Rightarrow>
          (let w1 = count_success (m_chat_id msg) (note_call attempt w)
           in case insert_reaction
                     (outcome msg emoji (utcnow ev attempt) ''success'' None attempt) (db w1) of
                Inl e \<Rightarrow> (None, count_error w1)
              | Inr store \<Rightarrow>
                  (None, w1\<lparr>db := update_analytics ''reaction_sent'' 1 emoji store\<rparr>))
      | FloodWait wait_time \<Rightarrow>
          (let w1 = count_flood_wait (note_call attempt w)
           in case insert_reaction
                     (outcome msg emoji (utcnow ev attempt) ''flood_wait''
                        (Some (''FloodWait '' @ str_int wait_time @ ''s'')) attempt) (db w1) of
                Inl e \<Rightarrow> (Some e, w1)
              | Inr store \<Rightarrow>
                  if attempt < max_retries
                  then send_reaction ev msg emoji chat_conf (attempt + 1)
                         (sleep (of_int wait_time * (3 / 2)) (w1\<lparr>db := store\<rparr>))
                  else (None, w1\<lparr>db := store\<rparr>))
      | RPCError s \<Rightarrow>
          (let w1 = count_error (note_call attempt w)
           in case insert_reaction
                     (outcome msg emoji (utcnow ev attempt) ''error'' (Some s) attempt) (db w1) of
                Inl e \<Rightarrow> (Some e, w1)
              | Inr store \<Rightarrow>
                  if attempt < max_retries \<and> \<not> py_in ''FLOOD'' (upper s)
                  then (case exponential_backoff attempt 1 60 (randbelow ev attempt) of
                          Inl e \<Rightarrow> (Some e, w1\<lparr>db := store\<rparr>)
                        | Inr delay \<Rightarrow>
                            send_reaction ev msg emoji chat_conf (attempt + 1)
                              (sleep delay (w1\<lparr>db := store\<rparr>)))
                  else (None, w1\<lparr>db := store\<rparr>))
      | OtherFailure \<Rightarrow> (None, count_error (note_call attempt w)))"
  by pat_completeness auto
termination
  by (relation "measure (\<lambda>(ev, msg, emoji, chat_conf, attempt, w). max_retries - attempt)") auto

declare send_reaction.simps [simp del]


fun sleeps_of :: "effect list \<Rightarrow> rat list" where
  "sleeps_of [] = []"
| "sleeps_of (Call n # es) = sleeps_of es"
| "sleeps_of (Sleep d # es) = d # sleeps_of es"


section \<open>Stats aggregator\<close>

subsection \<open>Dates, rounding and exception handling\<close>

text \<open>
  A \<open>datetime\<close> is the number of microseconds since the epoch; the representable ones
  run from year 1 to year 9999. \<open>timedelta(...)\<close> raises \<open>OverflowError\<close> when its day
  count leaves \<open>\<plusminus>999999999\<close>, and \<open>datetime \<plusminus> timedelta\<close> raises it when the result is not
  representable.
\<close>

definition usec_per_hour :: int where
  "usec_per_hour = 3600000000"

definition usec_per_day :: int where
  "usec_per_day = 86400000000"

definition datetime_min :: int where
  "datetime_min = - 62135596800000000"

definition datetime_max :: int where
  "datetime_max = 253402300799999999"

definition timedelta :: "int \<Rightarrow> py_error + int" where
  "timedelta us =
     (if us div usec_per_day < - 999999999 \<or> 999999999 < us div usec_per_day
      then Inl OverflowError else Inr us)"

definition datetime_plus :: "int \<Rightarrow> int \<Rightarrow> py_error + int" where
  "datetime_plus t d =
     (if t + d < datetime_min \<or> datetime_max < t + d then Inl OverflowError else Inr (t + d))"

definition and_then :: "py_error + 'a \<Rightarrow> ('a \<Rightarrow> py_error + 'b) \<Rightarrow> py_error + 'b" where
  "and_then x f = (case x of Inl e \<Rightarrow> Inl e | Inr v \<Rightarrow> f v)"

text \<open>\<open>start_time = datetime.utcnow() - timedelta(...)\<close>, the argument in microseconds.\<close>

definition window_start :: "int \<Rightarrow> int \<Rightarrow> py_error + int" where
  "window_start now us = and_then (timedelta us) (\<lambda>d. datetime_plus now (- d))"

text \<open>\<open>try: body  except Exception: return dflt\<close>.\<close>

definition try_except :: "py_error + 'a \<Rightarrow> 'a \<Rightarrow> 'a" where
  "try_except body dflt = (case body of Inl e \<Rightarrow> dflt | Inr v \<Rightarrow> v)"

text \<open>\<open>round(x, 2)\<close>: to the nearest hundredth, a tie to the even one. The float is
  modelled by the rational it stands for.\<close>

definition round_half_even :: "rat \<Rightarrow> int" where
  "round_half_even x =
     (let f = \<lfloor>x\<rfloor>; d = x - of_int f
      in if d < 1 / 2 then f else if 1 / 2 < d then f + 1 else if even f then f else f + 1)"

definition round2 :: "rat \<Rightarrow> rat" where
  "round2 x = of_int (round_half_even (x * 100)) / 100"

subsection \<open>Reads of the store\<close>

text \<open>\<open>count_documents(filter)\<close> on the reactions and on the chats collection; a filter
  document is the predicate it denotes.\<close>

definition count_reactions :: "(reaction_doc \<Rightarrow> bool) \<Rightarrow> database \<Rightarrow> py_error + nat" where
  "count_reactions P store =
     (case fault store Reactions of
        Some e \<Rightarrow> Inl e
      | None \<Rightarrow> Inr (length (filter P (reactions store))))"

definition count_chats :: "(chat_config \<Rightarrow> bool) \<Rightarrow> database \<Rightarrow> py_error + nat" where
  "count_chats P store =
     (case fault store Chats of
        Some e \<Rightarrow> Inl e
      | None \<Rightarrow> Inr (length (filter P (chats store))))"

text \<open>
  The pipeline stages \<open>$match\<close>, \<open>$group\<close> with \<open>{"count": {"$sum": 1}}\<close>, \<open>$sort\<close> and
  \<open>$limit\<close>. The store leaves the order of groups and of equal sort keys open; the
  model lists groups by last occurrence and sorts stably.
\<close>

definition group_count :: "'k list \<Rightarrow> ('k \<times> nat) list" where
  "group_count ks = map (\<lambda>k. (k, count_list ks k)) (remdups ks)"

definition sort_count_desc :: "('k \<times> nat) list \<Rightarrow> ('k \<times> nat) list" where
  "sort_count_desc gs = sort_key (\<lambda>g. - int (snd g)) gs"

definition match_group :: "(reaction_doc \<Rightarrow> bool) \<Rightarrow> (reaction_doc \<Rightarrow> 'k) \<Rightarrow> database \<Rightarrow> py_error + ('k \<times> nat) list" where
  "match_group P key store =
     (case fault store Reactions of
        Some e \<Rightarrow> Inl e
      | None \<Rightarrow> Inr (group_count (map key (filter P (reactions store)))))"

text \<open>\<open>distinct("chat_id", filter)\<close>.\<close>

definition distinct_chat_ids :: "(reaction_doc \<Rightarrow> bool) \<Rightarrow> database \<Rightarrow> py_error + int list" where
  "distinct_chat_ids P store =
     (case fault store Reactions of
        Some e \<Rightarrow> Inl e
      | None \<Rightarrow> Inr (remdups (map r_chat_id (filter P (reactions store)))))"

subsection \<open>The queries of \<open>AnalyticsEngine\<close>\<close>

definition get_total_reactions :: "database \<Rightarrow> nat" where
  "get_total_reactions store =
     try_except (count_reactions (\<lambda>d. r_status d = ''success'') store) 0"

definition get_reactions_per_second :: "database \<Rightarrow> int \<Rightarrow> int \<Rightarrow> rat" where
  "get_reactions_per_second store now hours =
     try_except
       (and_then (window_start now (hours * usec_per_hour)) (\<lambda>start_time.
        and_then (count_reactions
                    (\<lambda>d. r_status d = ''success'' \<and> start_time \<le> r_timestamp d) store) (\<lambda>count.
        let seconds = hours * 3600
        in Inr (if 0 < seconds then round2 (of_nat count / of_int seconds) else 0))))
       0"

definition get_active_chats :: "database \<Rightarrow> nat" where
  "get_active_chats store = try_except (count_chats (\<lambda>d. enabled d = Some True) store) 0"

definition get_flood_waits :: "database \<Rightarrow> int \<Rightarrow> int \<Rightarrow> nat" where
  "get_flood_waits store now hours =
     try_except
       (and_then (window_start now (hours * usec_per_hour)) (\<lambda>start_time.
        count_reactions (\<lambda>d. r_status d = ''flood_wait'' \<and> start_time \<le> r_timestamp d) store))
       0"

definition get_error_rate :: "database \<Rightarrow> int \<Rightarrow> int \<Rightarrow> rat" where
  "get_error_rate store now hours =
     try_except
       (and_then (window_start now (hours * usec_per_hour)) (\<lambda>start_time.
        and_then (count_reactions (\<lambda>d. start_time \<le> r_timestamp d) store) (\<lambda>total.
        and_then (count_reactions
                    (\<lambda>d. r_status d \<in> set [''error'', ''flood_wait'']
                         \<and> start_time \<le> r_timestamp d) store) (\<lambda>errs.
        Inr (if 0 < total then round2 (of_nat errs / of_nat total * 100) else 0)))))
       0"

definition get_emoji_usage :: "database \<Rightarrow> int \<Rightarrow> int \<Rightarrow> (string \<times> nat) list" where
  "get_emoji_usage store now hours =
     try_except
       (and_then (window_start now (hours * usec_per_hour)) (\<lambda>start_time.
        and_then (match_group
                    (\<lambda>d. r_status d = ''success'' \<and> start_time \<le> r_timestamp d) r_emoji store)
          (\<lambda>groups. Inr (take 20 (sort_count_desc groups)))))
       []"

text \<open>An entry of \<open>get_hourly_stats\<close>: the calendar hour (year, month, day, hour) is
  the number of whole hours since the epoch, its \<open>timestamp\<close> the start of that hour.\<close>

record hourly_entry =
  h_timestamp :: int
  h_hour :: int
  h_count :: nat

definition get_hourly_stats :: "database \<Rightarrow> int \<Rightarrow> int \<Rightarrow> hourly_entry list" where
  "get_hourly_stats store now hours =
     try_except
       (and_then (window_start now (hours * usec_per_hour)) (\<lambda>start_time.
        and_then (match_group
                    (\<lambda>d. r_status d = ''success'' \<and> start_time \<le> r_timestamp d)
                    (\<lambda>d. r_timestamp d div usec_per_hour) store)
          (\<lambda>groups. Inr (map (\<lambda>g. \<lparr>h_timestamp = fst g * usec_per_hour,
                                     h_hour = fst g mod 24, h_count = snd g\<rparr>)
                            (sort_key fst groups)))))
       []"








section \<open>Broadcast service\<close>

record stats_snapshot =
  s_total_reactions :: nat
  s_reactions_per_second :: rat
  s_active_chats :: nat
  s_bot_uptime :: int
  s_flood_waits :: nat
  s_error_rate :: rat
  s_emoji_usage :: "(string \<times> nat) list"
  s_hourly_stats :: "hourly_entry list"
  s_timestamp :: int

text \<open>The fields of \<open>telegram_bot\<close> that the service reads, and
  \<open>get_uptime = int((utcnow() - start_time).total_seconds())\<close>, which truncates.\<close>

record bot_state =
  is_running :: bool
  start_time :: int

definition get_uptime :: "bot_state \<Rightarrow> int \<Rightarrow> int" where
  "get_uptime b now =
     (let d = now - start_time b
      in if 0 \<le> d then d div 1000000 else - ((- d) div 1000000))"

record ws_message =
  msg_type :: string
  msg_data :: stats_snapshot
  msg_timestamp :: int

text \<open>
  The manager: the set \<open>active_connections\<close> in its iteration order, the \<open>send_json\<close>
  calls made so far (receiver, message, whether the call returned), and two counters
  for observation: the calls of \<open>_get_current_stats\<close> and the calls of
  \<open>analytics_engine\<close> methods made so far.
\<close>

record 'c ws_manager =
  active_connections :: "'c list"
  pushes :: "('c \<times> ws_message \<times> bool) list"
  snapshots_computed :: nat
  aggregator_calls :: nat

text \<open>\<open>_get_current_stats\<close> (lines 79 to 115): seven queries of the aggregator, none
  of which raises.\<close>

definition get_current_stats ::
  "database \<Rightarrow> bot_state \<Rightarrow> int \<Rightarrow> 'c ws_manager \<Rightarrow> stats_snapshot \<times> 'c ws_manager" where
  "get_current_stats store b now mgr =
     (\<lparr>s_total_reactions = get_total_reactions store,
       s_reactions_per_second = get_reactions_per_second store now 1,
       s_active_chats = get_active_chats store,
       s_bot_uptime = (if is_running b then get_uptime b now else 0),
       s_flood_waits = get_flood_waits store now 24,
       s_error_rate = get_error_rate store now 24,
       s_emoji_usage = get_emoji_usage store now 24,
       s_hourly_stats = get_hourly_stats store now 24,
       s_timestamp = now\<rparr>,
      mgr\<lparr>snapshots_computed := snapshots_computed mgr + 1,
          aggregator_calls := aggregator_calls mgr + 7\<rparr>)"

definition disconnect :: "'c \<Rightarrow> 'c ws_manager \<Rightarrow> 'c ws_manager" where
  "disconnect c mgr = mgr\<lparr>active_connections := removeAll c (active_connections mgr)\<rparr>"

text \<open>The first loop of \<open>broadcast\<close> (lines 69 to 74): the calls made and the
  connections whose call raised.\<close>

fun send_all :: "('c \<Rightarrow> bool) \<Rightarrow> ws_message \<Rightarrow> 'c list \<Rightarrow> ('c \<times> ws_message \<times> bool) list \<times> 'c list" where
  "send_all ok m [] = ([], [])"
| "send_all ok m (c # cs) =
     (case send_all ok m cs of
        (ps, disconnected) \<Rightarrow>
          if ok c then ((c, m, True) # ps, disconnected)
          else ((c, m, False) # ps, c # disconnected))"

definition broadcast :: "('c \<Rightarrow> bool) \<Rightarrow> ws_message \<Rightarrow> 'c ws_manager \<Rightarrow> 'c ws_manager" where
  "broadcast ok m mgr =
     (case send_all ok m (active_connections mgr) of
        (ps, disconnected) \<Rightarrow> fold disconnect disconnected (mgr\<lparr>pushes := pushes mgr @ ps\<rparr>))"

text \<open>What one iteration of \<open>_broadcast_stats_loop\<close> meets after its \<open>asyncio.sleep(5)\<close>:
  the store, the bot, the clock, and which connections accept a \<open>send_json\<close>.\<close>

record 'c tick =
  t_store :: database
  t_bot :: bot_state
  t_now :: int
  t_send_ok :: "'c \<Rightarrow> bool"

text \<open>One iteration of the \<open>while True\<close> loop (lines 120 to 132).\<close>

definition broadcast_tick :: "'c tick \<Rightarrow> 'c ws_manager \<Rightarrow> 'c ws_manager" where
  "broadcast_tick t mgr =
     (if active_connections mgr = [] then mgr
      else (case get_current_stats (t_store t) (t_bot t) (t_now t) mgr of
              (snapshot, mgr1) \<Rightarrow>
                broadcast (t_send_ok t)
                  \<lparr>msg_type = ''stats_update'', msg_data = snapshot, msg_timestamp = t_now t\<rparr>
                  mgr1))"

text \<open>The loop until it is cancelled, one list element for every iteration made.\<close>

fun broadcast_stats_loop :: "'c tick list \<Rightarrow> 'c ws_manager \<Rightarrow> 'c ws_manager" where
  "broadcast_stats_loop [] mgr = mgr"
| "broadcast_stats_loop (t # ts) mgr = broadcast_stats_loop ts (broadcast_tick t mgr)"

section \<open>Concrete inputs\<close>

text \<open>A store without faults holding one chat in sequential mode with three symbols,
  used to run the definitions.\<close>

definition no_fault :: "coll \<Rightarrow> py_error option" where
  "no_fault c = None"

definition example_chat :: chat_config where
  "example_chat =
     \<lparr>chat_id = - 1001, chat_title = Some ''News'', enabled = Some True,
      reaction_mode = Some ''sequential'', emojis = Some [heart, fire, thumbs_up],
      last_emoji_idx = None, delay_min = Some 0, delay_max = Some 0,
      react_to_text = None, react_to_media = None, react_to_forwards = None\<rparr>"

definition example_store :: database where
  "example_store =
     \<lparr>reactions = [], chats = [example_chat], settings = None, analytics = [],
      fault = no_fault\<rparr>"

text \<open>The world after \<open>insert_one(d)\<close> on the reactions collection has returned.\<close>

definition stored :: "reaction_doc \<Rightarrow> world \<Rightarrow> world" where
  "stored d w = w\<lparr>db := (db w)\<lparr>reactions := reactions (db w) @ [d]\<rparr>\<rparr>"

text \<open>The world whose stored Bot Settings are \<open>s\<close>.\<close>

definition with_settings :: "bot_settings option \<Rightarrow> world \<Rightarrow> world" where
  "with_settings s w = w\<lparr>db := (db w)\<lparr>settings := s\<rparr>\<rparr>"


text \<open>A store holding 100 successes and 5 errors recorded one minute before the clock
  read \<open>example_now\<close>; a store whose every collection raises; two subscribers, of which
  the second does not accept a \<open>send_json\<close>.\<close>

definition example_now :: int where
  "example_now = 1762250400000000"






text \<open>A message of the example chat; a platform that answers every call with a flood
  wait of 10 seconds, and one that answers with a flood wait of 5 seconds twice and then
  delivers; a world with empty counters whose stored Bot Settings ask for one retry and
  a flood-wait factor of 2.\<close>

definition example_message :: message where
  "example_message = \<lparr>m_chat_id = - 1001, m_id = 7\<rparr>"

definition flood_env :: env where
  "flood_env =
     \<lparr>platform = (\<lambda>n. FloodWait 10), utcnow = (\<lambda>n. example_now + int n),
      randbelow = (\<lambda>n. 0)\<rparr>"

definition recovering_env :: env where
  "recovering_env =
     \<lparr>platform = (\<lambda>n. if n < 2 then FloodWait 5 else Delivered),
      utcnow = (\<lambda>n. example_now + int n), randbelow = (\<lambda>n. 0)\<rparr>"

definition tuned_settings :: bot_settings where
  "tuned_settings = \<lparr>auto_react = Some True, max_retries_setting = 1, flood_wait_multiplier = 2\<rparr>"

definition example_world :: world where
  "example_world =
     \<lparr>stats = \<lparr>total_reactions = 0, flood_waits = 0, errors = 0, active_chats = {}\<rparr>,
      db = example_store\<lparr>settings := Some tuned_settings\<rparr>, effects = []\<rparr>"
section \<open>Properties of the emoji selector\<close>

lemma find_set_first_idx:
  "find (\<lambda>d. chat_id d = c) (set_first_idx c v ds) =
     map_option (\<lambda>d. d\<lparr>last_emoji_idx := Some v\<rparr>) (find (\<lambda>d. chat_id d = c) ds)"
  by (induction ds) auto

lemma find_set_first_idx_other:
  "c' \<noteq> c \<Longrightarrow> find (\<lambda>d. chat_id d = c') (set_first_idx c v ds) = find (\<lambda>d. chat_id d = c') ds"
  by (induction ds) auto

lemma select_sequential:
  assumes "mode_of cfg = ''sequential''" "emojis_of cfg \<noteq> []" "fault store Chats = None"
  shows "select_emoji r cfg store =
    (Inr (emojis_of cfg ! nat (cursor_of cfg mod int (length (emojis_of cfg)))),
     store\<lparr>chats := set_first_idx (chat_id cfg)
                    ((cursor_of cfg + 1) mod int (length (emojis_of cfg))) (chats store)\<rparr>)"
  using assms by (simp add: select_emoji_def update_one_idx_def Let_def)

lemma stored_facts:
  assumes "find_one_chat c store = Inr (Some cfg)"
  shows "fault store Chats = None" "find (\<lambda>d. chat_id d = c) (chats store) = Some cfg" "chat_id cfg = c"
  using assms by (auto simp: find_one_chat_def find_Some_iff split: option.splits)

lemma advance_keeps:
  "mode_of (cfg\<lparr>last_emoji_idx := v\<rparr>) = mode_of cfg"
  "emojis_of (cfg\<lparr>last_emoji_idx := v\<rparr>) = emojis_of cfg"
  "cursor_of (cfg\<lparr>last_emoji_idx := Some i\<rparr>) = i"
  by (simp_all add: mode_of_def emojis_of_def cursor_of_def)

lemma consecutive_general:
  assumes "find_one_chat c store = Inr (Some cfg)"
    "mode_of cfg = ''sequential''" "emojis_of cfg \<noteq> []"
  shows "\<exists>store' cfg'. consecutive_selections m c store =
            (map (\<lambda>k. emojis_of cfg ! nat ((cursor_of cfg + int k) mod int (length (emojis_of cfg)))) [0..<m], store')
          \<and> find_one_chat c store' = Inr (Some cfg')
          \<and> cursor_of cfg' = (if m = 0 then cursor_of cfg else (cursor_of cfg + int m) mod int (length (emojis_of cfg)))"
  using assms
proof (induction m arbitrary: store cfg)
  case 0
  then show ?case by simp
next
  case (Suc m)
  let ?es = "emojis_of cfg"
  let ?n = "int (length ?es)"
  let ?v = "(cursor_of cfg + 1) mod ?n"
  let ?db1 = "store\<lparr>chats := set_first_idx (chat_id cfg) ?v (chats store)\<rparr>"
  let ?cfg1 = "cfg\<lparr>last_emoji_idx := Some ?v\<rparr>"
  note st = stored_facts[OF Suc.prems(1)]
  have sel: "select_emoji 0 cfg store = (Inr (?es ! nat (cursor_of cfg mod ?n)), ?db1)"
    using select_sequential[OF Suc.prems(2,3) st(1)] by simp
  have f1: "find_one_chat c ?db1 = Inr (Some ?cfg1)"
    using st by (simp add: find_one_chat_def find_set_first_idx)
  from Suc.IH[OF f1] Suc.prems(2,3)
  obtain store' cfg' where rec: "consecutive_selections m c ?db1 =
      (map (\<lambda>k. ?es ! nat ((?v + int k) mod ?n)) [0..<m], store')"
    and fin: "find_one_chat c store' = Inr (Some cfg')"
    and cur: "cursor_of cfg' = (if m = 0 then ?v else (?v + int m) mod ?n)"
    by (auto simp: advance_keeps)
  have shift: "\<And>k. (?v + int k) mod ?n = (cursor_of cfg + int (Suc k)) mod ?n"
    by (simp add: mod_simps algebra_simps)
  have lst: "map (\<lambda>k. ?es ! nat ((cursor_of cfg + int k) mod ?n)) [0..<Suc m] =
     ?es ! nat (cursor_of cfg mod ?n) # map (\<lambda>k. ?es ! nat ((?v + int k) mod ?n)) [0..<m]"
    unfolding shift by (simp add: upt_conv_Cons map_Suc_upt[symmetric] del: upt_Suc)
  have cur': "cursor_of cfg' = (cursor_of cfg + int (Suc m)) mod ?n"
    using cur shift[of m] by (cases "m = 0") auto
  show ?case
    using Suc.prems(1) sel rec fin lst cur'
    by (auto simp del: upt_Suc)
qed

text \<open>
  C5: for a stored policy in sequential mode with a non-empty list of \<open>N\<close> symbols and
  cursor \<open>c\<close>, selection returns \<open>emojis[c mod N]\<close> and persists the cursor
  \<open>(c + 1) mod N\<close> in the chat's stored document, leaving every other chat's document as
  it was; the persisted cursor lies in \<open>[0, N)\<close>; and \<open>m\<close> consecutive selections that
  start at cursor 0 return the symbols at the indices \<open>0, 1, ..., N - 1, 0, ...\<close> in
  this order and leave the cursor \<open>m mod N\<close>.
\<close>

theorem sequential_selection_cycles:
  assumes "find_one_chat (chat_id cfg) store = Inr (Some cfg)"
    and "mode_of cfg = ''sequential''"
    and "emojis_of cfg \<noteq> []"
  shows "fst (select_emoji r cfg store)
           = Inr (emojis_of cfg ! nat (cursor_of cfg mod int (length (emojis_of cfg))))
       \<and> find_one_chat (chat_id cfg) (snd (select_emoji r cfg store))
           = Inr (Some (cfg\<lparr>last_emoji_idx :=
                   Some ((cursor_of cfg + 1) mod int (length (emojis_of cfg)))\<rparr>))
       \<and> (\<forall>c. c \<noteq> chat_id cfg \<longrightarrow>
             find_one_chat c (snd (select_emoji r cfg store)) = find_one_chat c store)
       \<and> 0 \<le> (cursor_of cfg + 1) mod int (length (emojis_of cfg))
       \<and> (cursor_of cfg + 1) mod int (length (emojis_of cfg)) < int (length (emojis_of cfg))
       \<and> (cursor_of cfg = 0 \<longrightarrow>
            fst (consecutive_selections m (chat_id cfg) store)
              = map (\<lambda>k. emojis_of cfg ! (k mod length (emojis_of cfg))) [0..<m]
          \<and> (\<exists>cfg'. find_one_chat (chat_id cfg) (snd (consecutive_selections m (chat_id cfg) store))
                        = Inr (Some cfg')
                   \<and> cursor_of cfg' = int (m mod length (emojis_of cfg))))"
proof -
  let ?n = "int (length (emojis_of cfg))"
  note st = stored_facts[OF assms(1)]
  note sel = select_sequential[OF assms(2,3) st(1), of r]
  have pos: "0 < ?n" using assms(3) by simp
  have a: "fst (select_emoji r cfg store) = Inr (emojis_of cfg ! nat (cursor_of cfg mod ?n))"
    by (simp add: sel)
  have b: "find_one_chat (chat_id cfg) (snd (select_emoji r cfg store))
           = Inr (Some (cfg\<lparr>last_emoji_idx := Some ((cursor_of cfg + 1) mod ?n)\<rparr>))"
    using st by (simp add: sel find_one_chat_def find_set_first_idx)
  have c: "\<forall>c. c \<noteq> chat_id cfg \<longrightarrow>
             find_one_chat c (snd (select_emoji r cfg store)) = find_one_chat c store"
    using st(1) by (simp add: sel find_one_chat_def find_set_first_idx_other)
  have d: "0 \<le> (cursor_of cfg + 1) mod ?n" "(cursor_of cfg + 1) mod ?n < ?n"
    using pos by simp_all
  have e: "cursor_of cfg = 0 \<longrightarrow>
            fst (consecutive_selections m (chat_id cfg) store)
              = map (\<lambda>k. emojis_of cfg ! (k mod length (emojis_of cfg))) [0..<m]
          \<and> (\<exists>cfg'. find_one_chat (chat_id cfg) (snd (consecutive_selections m (chat_id cfg) store))
                        = Inr (Some cfg')
                   \<and> cursor_of cfg' = int (m mod length (emojis_of cfg)))"
  proof
    assume z: "cursor_of cfg = 0"
    from consecutive_general[OF assms, of m] obtain store' cfg' where
      r: "consecutive_selections m (chat_id cfg) store =
            (map (\<lambda>k. emojis_of cfg ! nat ((cursor_of cfg + int k) mod ?n)) [0..<m], store')"
      and f: "find_one_chat (chat_id cfg) store' = Inr (Some cfg')"
      and cu: "cursor_of cfg' = (if m = 0 then cursor_of cfg else (cursor_of cfg + int m) mod ?n)"
      by blast
    have idx: "\<And>k. nat ((0 + int k) mod ?n) = k mod length (emojis_of cfg)"
      by (simp add: zmod_int[symmetric])
    have cu': "cursor_of cfg' = int (m mod length (emojis_of cfg))"
      using cu z by (cases "m = 0") (auto simp: zmod_int)
    show "fst (consecutive_selections m (chat_id cfg) store)
              = map (\<lambda>k. emojis_of cfg ! (k mod length (emojis_of cfg))) [0..<m]
          \<and> (\<exists>cfg'. find_one_chat (chat_id cfg) (snd (consecutive_selections m (chat_id cfg) store))
                        = Inr (Some cfg')
                   \<and> cursor_of cfg' = int (m mod length (emojis_of cfg)))"
      using r f cu' z idx by auto
  qed
  from a b c d e show ?thesis by blast
qed

text \<open>
  C10: when the reaction mode is not \<open>sequential\<close> (random, fixed, or a value the code
  does not know), selection leaves the whole store, and with it the chat's stored
  configuration and cursor, unchanged; so only sequential mode writes.
\<close>

theorem non_sequential_selection_writes_nothing:
  "mode_of cfg \<noteq> ''sequential'' \<Longrightarrow> snd (select_emoji r cfg store) = store"
  by (simp add: select_emoji_def Let_def)

theorem sequential_selection_cycles_witness:
  "find_one_chat (chat_id example_chat) example_store = Inr (Some example_chat)
   \<and> mode_of example_chat = ''sequential''
   \<and> emojis_of example_chat \<noteq> []
   \<and> fst (select_emoji 0 example_chat example_store) = Inr heart
   \<and> find_one_chat (- 1001) (snd (select_emoji 0 example_chat example_store))
       = Inr (Some (example_chat\<lparr>last_emoji_idx := Some 1\<rparr>))
   \<and> find_one_chat 5 (snd (select_emoji 0 example_chat example_store)) = Inr None
   \<and> fst (consecutive_selections 7 (- 1001) example_store)
       = [heart, fire, thumbs_up, heart, fire, thumbs_up, heart]"
proof -
  have h1: "find_one_chat (chat_id example_chat) example_store = Inr (Some example_chat)"
    by (simp add: find_one_chat_def example_store_def example_chat_def no_fault_def)
  have h2: "mode_of example_chat = ''sequential''"
    by (simp add: mode_of_def example_chat_def)
  have h3: "emojis_of example_chat \<noteq> []"
    by (simp add: emojis_of_def example_chat_def)
  have c0: "cursor_of example_chat = 0" "chat_id example_chat = - 1001"
    "emojis_of example_chat = [heart, fire, thumbs_up]"
    by (simp_all add: cursor_of_def emojis_of_def example_chat_def)
  have up: "[0..<7] = [0, 1, 2, 3, 4, 5, 6]"
    by (simp add: upt_rec)
  have o: "find_one_chat 5 example_store = Inr None"
    by (simp add: find_one_chat_def example_store_def example_chat_def no_fault_def)
  from sequential_selection_cycles[OF h1 h2 h3, of 0 7] h1 h2 h3
  show ?thesis
    by (simp add: c0 up o)
qed

theorem non_sequential_selection_writes_nothing_witness:
  "mode_of (example_chat\<lparr>reaction_mode := Some ''fixed''\<rparr>) \<noteq> ''sequential''
   \<and> snd (select_emoji 0 (example_chat\<lparr>reaction_mode := Some ''fixed''\<rparr>) example_store)
       = example_store"
proof -
  have h: "mode_of (example_chat\<lparr>reaction_mode := Some ''fixed''\<rparr>) \<noteq> ''sequential''"
    by (simp add: mode_of_def)
  from non_sequential_selection_writes_nothing[OF h, of 0 example_store] h
  show ?thesis by simp
qed

text \<open>Random and fixed mode on their own.\<close>

lemma random_empty_raises:
  "mode_of cfg = ''random'' \<Longrightarrow> emojis_of cfg = [] \<Longrightarrow>
     select_emoji r cfg store = (Inl IndexError, store)"
  by (simp add: select_emoji_def random_choice_def)

lemma fixed_selection:
  "mode_of cfg = ''fixed'' \<Longrightarrow>
     select_emoji r cfg store =
       (Inr (if emojis_of cfg = [] then heart else emojis_of cfg ! 0), store)"
  by (simp add: select_emoji_def)

text \<open>
  C6: selection on an empty list falls back to the default symbol in random and in fixed
  mode. Fixed mode does (\<open>fixed_selection\<close>); random mode calls \<open>random.choice\<close> on the
  empty list, which raises \<open>IndexError\<close>: the run below is the code on the stored policy
  with mode \<open>random\<close> and \<open>emojis = []\<close>.
\<close>

theorem random_mode_empty_list_raises:
  "select_emoji 0 (example_chat\<lparr>reaction_mode := Some ''random'', emojis := Some []\<rparr>)
     example_store = (Inl IndexError, example_store)"
  by (simp add: select_emoji_def random_choice_def mode_of_def emojis_of_def)

section \<open>Properties of the backoff\<close>




section \<open>Properties of the aggregator\<close>






lemma distinct_chat_ids_fault:
  "fault store Reactions = Some e \<Longrightarrow> distinct_chat_ids P store = Inl e"
  by (simp add: distinct_chat_ids_def)

lemma and_then_fault:
  "(\<And>v. f v = Inl e) \<Longrightarrow> \<exists>e'. and_then x f = Inl e'"
  by (cases x) (simp_all add: and_then_def)




















section \<open>Properties of the broadcast service\<close>













section \<open>Properties of the dispatcher\<close>

lemma insert_reaction_ok:
  "fault store Reactions = None \<Longrightarrow>
     insert_reaction d store = Inr (store\<lparr>reactions := reactions store @ [d]\<rparr>)"
  by (simp add: insert_reaction_def)

lemma world_fields:
  "effects (note_call a w) = effects w @ [Call a]" "db (note_call a w) = db w"
  "effects (sleep d w) = effects w @ [Sleep d]" "db (sleep d w) = db w"
  "effects (count_success c w) = effects w" "db (count_success c w) = db w"
  "effects (count_flood_wait w) = effects w" "db (count_flood_wait w) = db w"
  "effects (count_error w) = effects w" "db (count_error w) = db w"
  "effects (stored r w) = effects w"
  "reactions (db (stored r w)) = reactions (db w) @ [r]"
  "fault (db (stored r w)) = fault (db w)"
  by (simp_all add: note_call_def sleep_def count_success_def count_flood_wait_def
      count_error_def stored_def)

lemma update_analytics_fields:
  "reactions (update_analytics m v e store) = reactions store"
  "fault (update_analytics m v e store) = fault store"
  by (simp_all add: update_analytics_def split: option.splits)

lemma send_reaction_delivered:
  assumes "platform ev a = Delivered" "fault (db w) Reactions = None"
  shows "send_reaction ev msg emoji cc a w =
    (None, (stored (outcome msg emoji (utcnow ev a) ''success'' None a)
              (count_success (m_chat_id msg) (note_call a w)))
           \<lparr>db := update_analytics ''reaction_sent'' 1 emoji
                    (db (stored (outcome msg emoji (utcnow ev a) ''success'' None a)
                           (count_success (m_chat_id msg) (note_call a w))))\<rparr>)"
  using assms
  by (subst send_reaction.simps)
     (simp add: Let_def insert_reaction_ok world_fields stored_def)

lemma send_reaction_flood:
  assumes "platform ev a = FloodWait wt" "fault (db w) Reactions = None"
  shows "send_reaction ev msg emoji cc a w =
    (if a < max_retries
     then send_reaction ev msg emoji cc (a + 1)
            (sleep (of_int wt * (3 / 2))
               (stored (outcome msg emoji (utcnow ev a) ''flood_wait''
                          (Some (''FloodWait '' @ str_int wt @ ''s'')) a)
                  (count_flood_wait (note_call a w))))
     else (None, stored (outcome msg emoji (utcnow ev a) ''flood_wait''
                           (Some (''FloodWait '' @ str_int wt @ ''s'')) a)
                   (count_flood_wait (note_call a w))))"
  using assms
  by (subst send_reaction.simps)
     (simp add: Let_def insert_reaction_ok world_fields stored_def)

lemma send_reaction_rpc_retry:
  assumes "platform ev a = RPCError s" "fault (db w) Reactions = None"
    "a < max_retries" "\<not> py_in ''FLOOD'' (upper s)"
  shows "send_reaction ev msg emoji cc a w =
     send_reaction ev msg emoji cc (a + 1)
       (sleep (min (2 ^ a) 60 + of_nat (randbelow ev a) / 1000)
          (stored (outcome msg emoji (utcnow ev a) ''error'' (Some s) a)
             (count_error (note_call a w))))"
proof -
  have "a < 1024" using assms(3) by (simp add: max_retries_def)
  then have eb: "exponential_backoff a 1 60 (randbelow ev a)
                  = Inr (min (2 ^ a) 60 + of_nat (randbelow ev a) / 1000)"
    by (simp add: exponential_backoff_def Let_def)
  show ?thesis
    using assms
    by (subst send_reaction.simps)
       (simp add: Let_def insert_reaction_ok world_fields stored_def eb)
qed

lemma send_reaction_rpc_stop:
  assumes "platform ev a = RPCError s" "fault (db w) Reactions = None"
    "\<not> (a < max_retries \<and> \<not> py_in ''FLOOD'' (upper s))"
  shows "send_reaction ev msg emoji cc a w =
     (None, stored (outcome msg emoji (utcnow ev a) ''error'' (Some s) a)
              (count_error (note_call a w)))"
  using assms
  by (subst send_reaction.simps)
     (auto simp add: Let_def insert_reaction_ok world_fields stored_def)

lemma send_reaction_other:
  assumes "platform ev a = OtherFailure"
  shows "send_reaction ev msg emoji cc a w = (None, count_error (note_call a w))"
  using assms by (subst send_reaction.simps) simp

lemma insert_reaction_cases:
  "insert_reaction d store = Inr store' \<Longrightarrow>
     reactions store' = reactions store @ [d] \<and> fault store' = fault store"
  by (auto simp: insert_reaction_def split: option.splits)

lemma insert_reaction_fails:
  "insert_reaction d store = Inl e \<Longrightarrow> fault store Reactions = Some e"
  by (auto simp: insert_reaction_def split: option.splits)

lemma send_reaction_effects:
  "\<exists>es. effects (snd (send_reaction ev msg emoji cc a w)) = effects w @ Call a # es"
proof (induction ev msg emoji cc a w rule: send_reaction.induct)
  case (1 ev msg emoji cc a w)
  show ?case
  proof (cases "platform ev a")
    case Delivered
    then show ?thesis
      by (subst send_reaction.simps)
         (simp add: Let_def world_fields split: sum.splits)
  next
    case (FloodWait wt)
    let ?w1 = "count_flood_wait (note_call a w)"
    let ?d = "outcome msg emoji (utcnow ev a) ''flood_wait''
                (Some (''FloodWait '' @ str_int wt @ ''s'')) a"
    show ?thesis
    proof (cases "insert_reaction ?d (db ?w1)")
      case (Inl e)
      with FloodWait show ?thesis
        by (subst send_reaction.simps) (simp add: Let_def world_fields)
    next
      case (Inr store)
      show ?thesis
      proof (cases "a < max_retries")
        case True
        from "1.IH"(1)[OF FloodWait refl Inr True]
        obtain es where "effects (snd (send_reaction ev msg emoji cc (a + 1)
             (sleep (of_int wt * (3 / 2)) (?w1\<lparr>db := store\<rparr>))))
           = effects (sleep (of_int wt * (3 / 2)) (?w1\<lparr>db := store\<rparr>)) @ Call (a + 1) # es"
          by blast
        with FloodWait Inr True show ?thesis
          by (subst send_reaction.simps) (simp add: Let_def world_fields)
      next
        case False
        with FloodWait Inr show ?thesis
          by (subst send_reaction.simps) (simp add: Let_def world_fields)
      qed
    qed
  next
    case (RPCError s)
    let ?w1 = "count_error (note_call a w)"
    let ?d = "outcome msg emoji (utcnow ev a) ''error'' (Some s) a"
    show ?thesis
    proof (cases "insert_reaction ?d (db ?w1)")
      case (Inl e)
      with RPCError show ?thesis
        by (subst send_reaction.simps) (simp add: Let_def world_fields)
    next
      case (Inr store)
      show ?thesis
      proof (cases "a < max_retries \<and> \<not> py_in ''FLOOD'' (upper s)")
        case True
        show ?thesis
        proof (cases "exponential_backoff a 1 60 (randbelow ev a)")
          case (Inl e)
          with RPCError Inr True show ?thesis
            by (subst send_reaction.simps) (simp add: Let_def world_fields)
        next
          case (Inr delay)
          from "1.IH"(2)[OF RPCError refl \<open>insert_reaction ?d (db ?w1) = Inr store\<close> True Inr]
          obtain es where "effects (snd (send_reaction ev msg emoji cc (a + 1)
               (sleep delay (?w1\<lparr>db := store\<rparr>))))
             = effects (sleep delay (?w1\<lparr>db := store\<rparr>)) @ Call (a + 1) # es"
            by blast
          with RPCError \<open>insert_reaction ?d (db ?w1) = Inr store\<close> True Inr show ?thesis
            by (subst send_reaction.simps) (simp add: Let_def world_fields)
        qed
      next
        case False
        with RPCError Inr show ?thesis
          by (subst send_reaction.simps) (auto simp add: Let_def world_fields)
      qed
    qed
  next
    case OtherFailure
    then show ?thesis
      by (subst send_reaction.simps) (simp add: world_fields)
  qed
qed

lemma outcome_fields:
  "r_retry_count (outcome msg emoji now st err a) = a"
  "r_chat_id (outcome msg emoji now st err a) = m_chat_id msg"
  "r_message_id (outcome msg emoji now st err a) = m_id msg"
  "r_emoji (outcome msg emoji now st err a) = emoji"
  "r_status (outcome msg emoji now st err a) = st"
  "r_error (outcome msg emoji now st err a) = err"
  by (simp_all add: outcome_def)

text \<open>One attempt either ends the dispatch, having appended at most one record that
  carries its attempt number, or appends exactly one such record and goes on with the
  next attempt number.\<close>

lemma send_reaction_step:
  "(\<exists>r w'. send_reaction ev msg emoji cc a w = (r, w')
        \<and> (reactions (db w') = reactions (db w)
           \<or> (\<exists>d. reactions (db w') = reactions (db w) @ [d] \<and> r_retry_count d = a)))
   \<or> (a < max_retries
      \<and> (\<exists>w2 d. send_reaction ev msg emoji cc a w = send_reaction ev msg emoji cc (a + 1) w2
              \<and> reactions (db w2) = reactions (db w) @ [d] \<and> r_retry_count d = a))"
proof (cases "platform ev a")
  case Delivered
  show ?thesis
  proof (cases "fault (db w) Reactions")
    case None
    show ?thesis
      by (rule disjI1, subst send_reaction_delivered[OF Delivered None])
         (simp add: world_fields update_analytics_fields outcome_fields)
  next
    case (Some e)
    with Delivered show ?thesis
      by (subst send_reaction.simps)
         (simp add: Let_def world_fields insert_reaction_def)
  qed
next
  case (FloodWait wt)
  show ?thesis
  proof (cases "fault (db w) Reactions")
    case None
    show ?thesis
    proof (cases "a < max_retries")
      case True
      show ?thesis
        by (rule disjI2, subst send_reaction_flood[OF FloodWait None])
           (use True in \<open>auto simp: world_fields outcome_fields intro!: exI\<close>)
    next
      case False
      show ?thesis
        by (rule disjI1, subst send_reaction_flood[OF FloodWait None])
           (use False in \<open>simp add: world_fields outcome_fields\<close>)
    qed
  next
    case (Some e)
    with FloodWait show ?thesis
      by (subst send_reaction.simps)
         (simp add: Let_def world_fields insert_reaction_def)
  qed
next
  case (RPCError s)
  show ?thesis
  proof (cases "fault (db w) Reactions")
    case None
    show ?thesis
    proof (cases "a < max_retries \<and> \<not> py_in ''FLOOD'' (upper s)")
      case True
      then have t: "a < max_retries" "\<not> py_in ''FLOOD'' (upper s)" by simp_all
      show ?thesis
        by (rule disjI2, subst send_reaction_rpc_retry[OF RPCError None t])
           (use t in \<open>auto simp: world_fields outcome_fields intro!: exI\<close>)
    next
      case False
      show ?thesis
        by (rule disjI1, subst send_reaction_rpc_stop[OF RPCError None False])
           (simp add: world_fields outcome_fields)
    qed
  next
    case (Some e)
    with RPCError show ?thesis
      by (subst send_reaction.simps)
         (simp add: Let_def world_fields insert_reaction_def)
  qed
next
  case OtherFailure
  show ?thesis
    by (rule disjI1, subst send_reaction_other[OF OtherFailure]) (simp add: world_fields)
qed

lemma send_reaction_records:
  "\<exists>ds. reactions (db (snd (send_reaction ev msg emoji cc a w))) = reactions (db w) @ ds
        \<and> (\<forall>d \<in> set ds. a \<le> r_retry_count d)"
proof (induction "max_retries - a" arbitrary: a w)
  case 0
  from send_reaction_step[of ev msg emoji cc a w] 0
  show ?case by auto
next
  case (Suc n)
  from send_reaction_step[of ev msg emoji cc a w]
  show ?case
  proof
    assume "\<exists>r w'. send_reaction ev msg emoji cc a w = (r, w')
        \<and> (reactions (db w') = reactions (db w)
           \<or> (\<exists>d. reactions (db w') = reactions (db w) @ [d] \<and> r_retry_count d = a))"
    then show ?thesis by auto
  next
    assume "a < max_retries
      \<and> (\<exists>w2 d. send_reaction ev msg emoji cc a w = send_reaction ev msg emoji cc (a + 1) w2
              \<and> reactions (db w2) = reactions (db w) @ [d] \<and> r_retry_count d = a)"
    then obtain w2 d where lt: "a < max_retries"
      and eq: "send_reaction ev msg emoji cc a w = send_reaction ev msg emoji cc (a + 1) w2"
      and r2: "reactions (db w2) = reactions (db w) @ [d]" and rc: "r_retry_count d = a"
      by blast
    from Suc.hyps(2) lt have "n = max_retries - (a + 1)" by simp
    from Suc.hyps(1)[OF this, of w2]
    obtain ds where "reactions (db (snd (send_reaction ev msg emoji cc (a + 1) w2)))
                       = reactions (db w2) @ ds"
      and "\<forall>d \<in> set ds. a + 1 \<le> r_retry_count d" by blast
    with eq r2 rc show ?thesis
      by (intro exI[of _ "d # ds"]) auto
  qed
qed


lemma sleeps_of_append: "sleeps_of (xs @ ys) = sleeps_of xs @ sleeps_of ys"
  by (induction xs rule: sleeps_of.induct) simp_all

lemma flood_wait_step:
  assumes "platform ev a = FloodWait wt" "fault (db w) Reactions = None" "a < max_retries"
  shows "\<exists>es. effects (snd (send_reaction ev msg emoji cc a w)) =
                effects w @ Call a # Sleep (of_int wt * (3 / 2)) # Call (a + 1) # es"
proof -
  let ?w2 = "sleep (of_int wt * (3 / 2))
               (stored (outcome msg emoji (utcnow ev a) ''flood_wait''
                          (Some (''FloodWait '' @ str_int wt @ ''s'')) a)
                  (count_flood_wait (note_call a w)))"
  from send_reaction_effects[of ev msg emoji cc "a + 1" ?w2]
  obtain es where "effects (snd (send_reaction ev msg emoji cc (a + 1) ?w2))
                     = effects ?w2 @ Call (a + 1) # es" by blast
  then show ?thesis
    using assms(3) by (simp add: send_reaction_flood[OF assms(1,2)] world_fields)
qed

text \<open>
  C1: an attempt that meets a flood wait with wait \<open>wt\<close>, on a store that accepts the
  insert, appends one record with status \<open>flood_wait\<close>, the text \<open>FloodWait <wt>s\<close> as its
  error and the attempt number as its retry count. If the attempt number is below
  \<open>max_retries\<close>, the dispatch goes on as the call for the next attempt number, after a
  sleep of exactly \<open>wt * 3/2\<close> seconds: the call of the platform is followed by this sleep
  and by the call for attempt + 1. Otherwise it stops: nothing follows the call, and no
  further record. Every later record carries a larger attempt number.
\<close>

theorem flood_wait_attempt:
  assumes "platform ev attempt = FloodWait wt"
    and "fault (db w) Reactions = None"
  shows "send_reaction ev msg emoji cc attempt w =
           (if attempt < max_retries
            then send_reaction ev msg emoji cc (attempt + 1)
                   (sleep (of_int wt * (3 / 2))
                      (stored (outcome msg emoji (utcnow ev attempt) ''flood_wait''
                                 (Some (''FloodWait '' @ str_int wt @ ''s'')) attempt)
                         (count_flood_wait (note_call attempt w))))
            else (None, stored (outcome msg emoji (utcnow ev attempt) ''flood_wait''
                                  (Some (''FloodWait '' @ str_int wt @ ''s'')) attempt)
                          (count_flood_wait (note_call attempt w))))
       \<and> (\<exists>es ds.
             effects (snd (send_reaction ev msg emoji cc attempt w)) =
               effects w @ Call attempt #
                 (if attempt < max_retries
                  then Sleep (of_int wt * (3 / 2)) # Call (attempt + 1) # es else [])
           \<and> reactions (db (snd (send_reaction ev msg emoji cc attempt w))) =
               reactions (db w) @
                 \<lparr>r_chat_id = m_chat_id msg, r_message_id = m_id msg, r_emoji = emoji,
                  r_timestamp = utcnow ev attempt, r_status = ''flood_wait'',
                  r_error = Some (''FloodWait '' @ str_int wt @ ''s''),
                  r_retry_count = attempt\<rparr> # ds
           \<and> (\<forall>d \<in> set ds. attempt < r_retry_count d)
           \<and> (attempt < max_retries \<or> ds = []))"
proof -
  let ?d = "outcome msg emoji (utcnow ev attempt) ''flood_wait''
              (Some (''FloodWait '' @ str_int wt @ ''s'')) attempt"
  let ?w1 = "stored ?d (count_flood_wait (note_call attempt w))"
  let ?w2 = "sleep (of_int wt * (3 / 2)) ?w1"
  note eq = send_reaction_flood[OF assms, of msg emoji cc]
  have obs: "\<exists>es ds.
             effects (snd (send_reaction ev msg emoji cc attempt w)) =
               effects w @ Call attempt #
                 (if attempt < max_retries
                  then Sleep (of_int wt * (3 / 2)) # Call (attempt + 1) # es else [])
           \<and> reactions (db (snd (send_reaction ev msg emoji cc attempt w))) =
               reactions (db w) @ ?d # ds
           \<and> (\<forall>d \<in> set ds. attempt < r_retry_count d)
           \<and> (attempt < max_retries \<or> ds = [])"
  proof (cases "attempt < max_retries")
    case True
    from send_reaction_effects[of ev msg emoji cc "attempt + 1" ?w2]
    obtain es where es: "effects (snd (send_reaction ev msg emoji cc (attempt + 1) ?w2))
                           = effects ?w2 @ Call (attempt + 1) # es" by blast
    from send_reaction_records[of ev msg emoji cc "attempt + 1" ?w2]
    obtain ds where ds: "reactions (db (snd (send_reaction ev msg emoji cc (attempt + 1) ?w2)))
                           = reactions (db ?w2) @ ds"
      and later: "\<forall>d \<in> set ds. attempt + 1 \<le> r_retry_count d" by blast
    from later have later': "\<forall>d \<in> set ds. attempt < r_retry_count d" by auto
    show ?thesis
      using True es ds later' by (simp add: eq world_fields)
  next
    case False
    then show ?thesis by (simp add: eq world_fields)
  qed
  from eq obs show ?thesis by (simp add: outcome_def)
qed



lemma example_world_fields:
  "fault (db example_world) Reactions = None" "effects example_world = []"
  "reactions (db example_world) = []"
  by (simp_all add: example_world_def example_store_def no_fault_def)

lemma flood_env_fields:
  "platform flood_env n = FloodWait 10" "utcnow flood_env n = example_now + int n"
  by (simp_all add: flood_env_def)

lemma recovering_env_fields:
  "platform recovering_env 0 = FloodWait 5" "platform recovering_env 1 = FloodWait 5"
  "platform recovering_env 2 = Delivered" "utcnow recovering_env n = example_now + int n"
  by (simp_all add: recovering_env_def)

text \<open>The scenario of two flood waits of 5 seconds followed by a delivery: three
  records, and 15 seconds slept in all before the delivery.\<close>

lemma recovering_run:
  "map r_status (reactions (db (snd (send_reaction recovering_env example_message heart
       example_chat 0 example_world)))) = [''flood_wait'', ''flood_wait'', ''success'']
   \<and> map r_retry_count (reactions (db (snd (send_reaction recovering_env example_message heart
       example_chat 0 example_world)))) = [0, 1, 2]
   \<and> effects (snd (send_reaction recovering_env example_message heart example_chat 0
       example_world)) = [Call 0, Sleep (15 / 2), Call 1, Sleep (15 / 2), Call 2]
   \<and> sum_list (sleeps_of (effects (snd (send_reaction recovering_env example_message heart
       example_chat 0 example_world)))) = 15"
proof -
  have fl: "n < 2 \<Longrightarrow> platform recovering_env n = FloodWait 5" for n
    by (simp add: recovering_env_def)
  have dl: "\<not> n < 2 \<Longrightarrow> platform recovering_env n = Delivered" for n
    by (simp add: recovering_env_def)
  show ?thesis
    by (simp add: send_reaction_flood[OF fl] send_reaction_delivered[OF dl]
        world_fields update_analytics_fields outcome_fields example_world_fields
        max_retries_def)
qed

theorem flood_wait_attempt_witness:
  "platform recovering_env 0 = FloodWait 5
   \<and> fault (db example_world) Reactions = None
   \<and> take 3 (effects (snd (send_reaction recovering_env example_message heart example_chat 0
                           example_world)))
       = [Call 0, Sleep (15 / 2), Call 1]
   \<and> map r_status (take 1 (reactions (db (snd (send_reaction recovering_env example_message heart
                           example_chat 0 example_world)))))
       = [''flood_wait'']
   \<and> map r_error (take 1 (reactions (db (snd (send_reaction recovering_env example_message heart
                           example_chat 0 example_world)))))
       = [Some ''FloodWait 5s'']
   \<and> platform flood_env 3 = FloodWait 10
   \<and> effects (snd (send_reaction flood_env example_message heart example_chat 3 example_world))
       = [Call 3]
   \<and> map r_error (reactions (db (snd (send_reaction flood_env example_message heart
                           example_chat 3 example_world))))
       = [Some ''FloodWait 10s'']"
proof -
  have h1: "platform recovering_env 0 = FloodWait 5" by (rule recovering_env_fields)
  have h2: "fault (db example_world) Reactions = None" by (rule example_world_fields)
  have h3: "platform flood_env 3 = FloodWait 10" by (rule flood_env_fields)
  have s5: "str_int 5 = ''5''" "str_int 10 = ''10''" by (simp_all add: str_int_def)
  from flood_wait_attempt[OF h1 h2, of example_message heart example_chat]
  obtain es ds where
    a1: "effects (snd (send_reaction recovering_env example_message heart example_chat 0
                           example_world)) =
           effects example_world @ Call 0 #
             (if 0 < max_retries then Sleep (of_int 5 * (3 / 2)) # Call (0 + 1) # es else [])"
    and a2: "reactions (db (snd (send_reaction recovering_env example_message heart example_chat 0
                           example_world))) =
           reactions (db example_world) @
             \<lparr>r_chat_id = m_chat_id example_message, r_message_id = m_id example_message,
              r_emoji = heart, r_timestamp = utcnow recovering_env 0, r_status = ''flood_wait'',
              r_error = Some (''FloodWait '' @ str_int 5 @ ''s''), r_retry_count = 0\<rparr> # ds"
    by blast
  from flood_wait_attempt[OF h3 h2, of example_message heart example_chat]
  obtain es' ds' where
    b1: "effects (snd (send_reaction flood_env example_message heart example_chat 3
                           example_world)) =
           effects example_world @ Call 3 #
             (if 3 < max_retries then Sleep (of_int 10 * (3 / 2)) # Call (3 + 1) # es' else [])"
    and b2: "reactions (db (snd (send_reaction flood_env example_message heart example_chat 3
                           example_world))) =
           reactions (db example_world) @
             \<lparr>r_chat_id = m_chat_id example_message, r_message_id = m_id example_message,
              r_emoji = heart, r_timestamp = utcnow flood_env 3, r_status = ''flood_wait'',
              r_error = Some (''FloodWait '' @ str_int 10 @ ''s''), r_retry_count = 3\<rparr> # ds'"
    and b3: "3 < max_retries \<or> ds' = []"
    by blast
  from b3 have b3': "ds' = []" by (simp add: max_retries_def)
  show ?thesis
    using h1 h2 h3 a1 a2 b1 b2 b3'
    by (simp add: example_world_fields max_retries_def s5)
qed


lemma with_settings_commutes:
  "note_call a (with_settings s w) = with_settings s (note_call a w)"
  "sleep d (with_settings s w) = with_settings s (sleep d w)"
  "count_success c (with_settings s w) = with_settings s (count_success c w)"
  "count_flood_wait (with_settings s w) = with_settings s (count_flood_wait w)"
  "count_error (with_settings s w) = with_settings s (count_error w)"
  "db (with_settings s w) = (db w)\<lparr>settings := s\<rparr>"
  "(with_settings s w)\<lparr>db := store\<lparr>settings := s\<rparr>\<rparr> = with_settings s (w\<lparr>db := store\<rparr>)"
  "effects (with_settings s w) = effects w"
  "stats (with_settings s w) = stats w"
  by (simp_all add: with_settings_def note_call_def sleep_def count_success_def
      count_flood_wait_def count_error_def)

lemma insert_reaction_settings:
  "insert_reaction d (store\<lparr>settings := s\<rparr>) =
     (case insert_reaction d store of Inl e \<Rightarrow> Inl e | Inr store' \<Rightarrow> Inr (store'\<lparr>settings := s\<rparr>))"
  by (simp add: insert_reaction_def split: option.splits)

lemma update_analytics_settings:
  "update_analytics m v e (store\<lparr>settings := s\<rparr>) = (update_analytics m v e store)\<lparr>settings := s\<rparr>"
  by (simp add: update_analytics_def split: option.splits)

lemma send_reaction_with_settings:
  "send_reaction ev msg emoji cc a (with_settings s w) =
     (case send_reaction ev msg emoji cc a w of (r, w') \<Rightarrow> (r, with_settings s w'))"
proof (induction ev msg emoji cc a w rule: send_reaction.induct)
  case (1 ev msg emoji cc a w)
  note u1 = send_reaction.simps[of ev msg emoji cc a w]
  note u2 = send_reaction.simps[of ev msg emoji cc a "with_settings s w"]
  note comm = with_settings_commutes insert_reaction_settings update_analytics_settings
  show ?case
  proof (cases "platform ev a")
    case Delivered
    then show ?thesis
      by (simp add: u1 u2 Let_def comm split: sum.splits)
  next
    case (FloodWait wt)
    let ?w1 = "count_flood_wait (note_call a w)"
    let ?d = "outcome msg emoji (utcnow ev a) ''flood_wait''
                (Some (''FloodWait '' @ str_int wt @ ''s'')) a"
    show ?thesis
    proof (cases "insert_reaction ?d (db ?w1)")
      case (Inl e)
      with FloodWait show ?thesis
        by (simp add: u1 u2 Let_def comm)
    next
      case (Inr store)
      show ?thesis
      proof (cases "a < max_retries")
        case True
        from "1.IH"(1)[OF FloodWait refl Inr True] FloodWait Inr True
        show ?thesis
          by (simp add: u1 u2 Let_def comm)
      next
        case False
        with FloodWait Inr show ?thesis
          by (simp add: u1 u2 Let_def comm)
      qed
    qed
  next
    case (RPCError t)
    let ?w1 = "count_error (note_call a w)"
    let ?d = "outcome msg emoji (utcnow ev a) ''error'' (Some t) a"
    show ?thesis
    proof (cases "insert_reaction ?d (db ?w1)")
      case (Inl e)
      with RPCError show ?thesis
        by (simp add: u1 u2 Let_def comm)
    next
      case (Inr store)
      note ins = Inr
      show ?thesis
      proof (cases "a < max_retries \<and> \<not> py_in ''FLOOD'' (upper t)")
        case True
        show ?thesis
        proof (cases "exponential_backoff a 1 60 (randbelow ev a)")
          case (Inl e)
          with RPCError ins True show ?thesis
            by (simp add: u1 u2 Let_def comm)
        next
          case (Inr delay)
          from "1.IH"(2)[OF RPCError refl ins True Inr] RPCError ins True Inr
          show ?thesis
            by (simp add: u1 u2 Let_def comm)
        qed
      next
        case False
        with RPCError ins show ?thesis
          by (auto simp add: u1 u2 Let_def comm)
      qed
    qed
  next
    case OtherFailure
    then show ?thesis
      by (simp add: u1 u2 comm)
  qed
qed

text \<open>
  C3 as stated fails: with Bot Settings that ask for one retry and a flood-wait factor of
  2 in the store, and a platform that answers every call with a flood wait of 10 seconds,
  the dispatcher still calls the platform for the attempts 0 to 3 and sleeps 15 seconds
  three times.
\<close>

theorem settings_not_consulted_counterexample:
  "settings (db example_world) = Some tuned_settings
   \<and> max_retries_setting tuned_settings = 1
   \<and> flood_wait_multiplier tuned_settings = 2
   \<and> effects (snd (send_reaction flood_env example_message heart example_chat 0 example_world))
       = [Call 0, Sleep 15, Call 1, Sleep 15, Call 2, Sleep 15, Call 3]"
proof -
  have p: "\<And>n. platform flood_env n = FloodWait 10" by (simp add: flood_env_def)
  have r: "effects (snd (send_reaction flood_env example_message heart example_chat 0 example_world))
       = [Call 0, Sleep 15, Call 1, Sleep 15, Call 2, Sleep 15, Call 3]"
    by (simp add: send_reaction_flood[OF p] world_fields example_world_fields max_retries_def)
  show ?thesis
    using r by (simp add: example_world_def tuned_settings_def)
qed

lemma send_reaction_last_attempt:
  assumes "\<not> a < max_retries"
  shows "effects (snd (send_reaction ev msg emoji cc a w)) = effects w @ [Call a]"
  using assms
  by (subst send_reaction.simps)
     (simp add: Let_def world_fields split: send_result.splits sum.splits)

text \<open>
  C3, amended: the retry cap and the flood-wait factor of the dispatcher are the
  constants 3 and 3/2, the defaults of Bot Settings, and are not taken from Bot
  Settings. Whatever settings are stored, a dispatch gives the same result and the same
  world, the stored settings apart; an attempt with a number below 3 that meets a flood
  wait \<open>wt\<close> is followed by a sleep of \<open>wt * 3/2\<close> seconds and the next attempt; and an
  attempt with number 3 or more is followed by nothing.
\<close>

theorem retry_parameters_fixed:
  "max_retries = 3
   \<and> send_reaction ev msg emoji cc a (with_settings s w) =
       (case send_reaction ev msg emoji cc a w of (r, w') \<Rightarrow> (r, with_settings s w'))
   \<and> (platform ev a = FloodWait wt \<and> fault (db w) Reactions = None \<and> a < 3 \<longrightarrow>
        (\<exists>es. effects (snd (send_reaction ev msg emoji cc a (with_settings s w))) =
                effects w @ Call a # Sleep (of_int wt * (3 / 2)) # Call (a + 1) # es))
   \<and> (\<not> a < 3 \<longrightarrow>
        effects (snd (send_reaction ev msg emoji cc a (with_settings s w))) = effects w @ [Call a])"
proof (intro conjI impI)
  show "max_retries = 3" by (simp add: max_retries_def)
  show "send_reaction ev msg emoji cc a (with_settings s w) =
       (case send_reaction ev msg emoji cc a w of (r, w') \<Rightarrow> (r, with_settings s w'))"
    by (rule send_reaction_with_settings)
next
  assume h: "platform ev a = FloodWait wt \<and> fault (db w) Reactions = None \<and> a < 3"
  then have p: "platform ev a = FloodWait wt"
    and f: "fault (db (with_settings s w)) Reactions = None"
    and lt: "a < max_retries"
    by (simp_all add: with_settings_commutes max_retries_def)
  from flood_wait_step[OF p f lt, of msg emoji cc]
  show "\<exists>es. effects (snd (send_reaction ev msg emoji cc a (with_settings s w))) =
                effects w @ Call a # Sleep (of_int wt * (3 / 2)) # Call (a + 1) # es"
    by (simp add: with_settings_commutes)
next
  assume "\<not> a < 3"
  then have "\<not> a < max_retries" by (simp add: max_retries_def)
  from send_reaction_last_attempt[OF this, of ev msg emoji cc "with_settings s w"]
  show "effects (snd (send_reaction ev msg emoji cc a (with_settings s w))) = effects w @ [Call a]"
    by (simp add: with_settings_commutes)
qed

theorem retry_parameters_fixed_witness:
  "platform flood_env 0 = FloodWait 10
   \<and> fault (db example_world) Reactions = None
   \<and> (0::nat) < 3 \<and> \<not> (3::nat) < 3
   \<and> take 3 (effects (snd (send_reaction flood_env example_message heart example_chat 0
                (with_settings None example_world)))) = [Call 0, Sleep 15, Call 1]
   \<and> effects (snd (send_reaction flood_env example_message heart example_chat 3
                (with_settings None example_world))) = [Call 3]
   \<and> fst (send_reaction flood_env example_message heart example_chat 0
            (with_settings None example_world))
       = fst (send_reaction flood_env example_message heart example_chat 0 example_world)"
proof -
  have h1: "platform flood_env 0 = FloodWait 10" by (rule flood_env_fields)
  have h2: "fault (db example_world) Reactions = None" by (rule example_world_fields)
  note t0 = retry_parameters_fixed[of flood_env example_message heart example_chat 0 None
      example_world 10]
  note t3 = retry_parameters_fixed[of flood_env example_message heart example_chat 3 None
      example_world 10]
  note t0c = t0[THEN conjunct2, THEN conjunct2, THEN conjunct1]
  note t3d = t3[THEN conjunct2, THEN conjunct2, THEN conjunct2]
  from t0c h1 h2 obtain es where
    e0: "effects (snd (send_reaction flood_env example_message heart example_chat 0
           (with_settings None example_world))) =
         effects example_world @ Call 0 # Sleep (of_int 10 * (3 / 2)) # Call (0 + 1) # es"
    by auto
  from t3d have
    e3: "effects (snd (send_reaction flood_env example_message heart example_chat 3
           (with_settings None example_world))) = effects example_world @ [Call 3]"
    by simp
  from t0[THEN conjunct2, THEN conjunct1] have
    eq: "send_reaction flood_env example_message heart example_chat 0
           (with_settings None example_world) =
         (case send_reaction flood_env example_message heart example_chat 0 example_world of
            (r, w') \<Rightarrow> (r, with_settings None w'))" .
  show ?thesis
    using h1 h2 e0 e3 by (simp add: eq example_world_fields split: prod.splits)
qed

end
